theory Spec2Isabelle
  imports Complex_Main "HOL-Library.Char_ord" "HOL-Library.List_Lexorder" "HOL-Library.AList"
begin

section \<open>Formatters\<close>

text \<open>
  JavaScript values that reach the helpers. \<open>timeAgo\<close> receives an ISO timestamp string,
  \<open>null\<close> or \<open>undefined\<close>; \<open>formatNumber\<close> receives an integer count. A Number is an IEEE
  double: an integer count below \<open>2 ^ 53\<close> is held exactly, and a quotient of two such
  integers is the exact quotient rounded to the nearest double (ties to even).
\<close>

datatype js_string_arg = Null | Undefined | Str string

fun bit_length :: "nat \<Rightarrow> nat" where
  "bit_length n = (if n = 0 then 0 else Suc (bit_length (n div 2)))"

definition round_half_even :: "int \<Rightarrow> int \<Rightarrow> int" where
  "round_half_even a b =
     (let q = a div b; r = a mod b
      in if 2 * r < b then q
         else if 2 * r > b then q + 1
         else if even q then q else q + 1)"

text \<open>
  \<open>number_div a b\<close> is the double \<open>a / b\<close> for integers \<open>a \<ge> b > 0\<close>: the quotient is
  scaled so that it has a 53-bit integer part, rounded, and scaled back.
\<close>

definition number_div :: "int \<Rightarrow> int \<Rightarrow> rat" where
  "number_div a b =
     (let k = bit_length (nat (a div b))
      in if k \<le> 53
         then of_int (round_half_even (a * 2 ^ (53 - k)) b) / 2 ^ (53 - k)
         else of_int (round_half_even a (b * 2 ^ (k - 53))) * 2 ^ (k - 53))"

fun string_of_nat :: "nat \<Rightarrow> string" where
  "string_of_nat n =
     (if n < 10 then [''0123456789'' ! n]
      else string_of_nat (n div 10) @ [''0123456789'' ! (n mod 10)])"

text \<open>\<open>String(n)\<close> and template interpolation of an integer: its decimal digits.\<close>

definition js_String :: "int \<Rightarrow> string" where
  "js_String n =
     (if n < 0 then CHR ''-'' # string_of_nat (nat (- n)) else string_of_nat (nat n))"

text \<open>
  \<open>x.toFixed(1)\<close> for \<open>0 \<le> x < 10 ^ 21\<close>: the integer \<open>n\<close> with \<open>n / 10\<close> nearest to \<open>x\<close>
  (the larger one on a tie), printed with one digit after the point.
\<close>

definition toFixed1 :: "rat \<Rightarrow> string" where
  "toFixed1 x =
     (let n = nat \<lfloor>x * 10 + 1 / 2\<rfloor>
      in string_of_nat (n div 10) @ ''.'' @ string_of_nat (n mod 10))"

definition formatNumber :: "int \<Rightarrow> string" where
  "formatNumber n =
     (if n \<ge> 1000000 then toFixed1 (number_div n 1000000) @ ''M''
      else if n \<ge> 1000 then toFixed1 (number_div n 1000) @ ''K''
      else js_String n)"

text \<open>
  \<open>timeAgo\<close> reads the clock (\<open>Date.now()\<close>, here \<open>now\<close>, in milliseconds) and parses its
  argument (\<open>new Date(isoStr).getTime()\<close>, here \<open>getTime\<close>, \<open>None\<close> for an invalid date,
  whose time value is \<open>NaN\<close>). Every comparison with \<open>NaN\<close> is false, so an invalid date
  falls through to the last \<open>return\<close>. For time values (below \<open>2 ^ 53\<close> in size)
  \<open>Math.floor\<close> of the double quotient is the floor of the exact quotient, which is
  \<open>div\<close> on \<open>int\<close>.
\<close>

definition timeAgo :: "int \<Rightarrow> (string \<Rightarrow> int option) \<Rightarrow> js_string_arg \<Rightarrow> string" where
  "timeAgo now getTime isoStr =
     (case isoStr of
        Null \<Rightarrow> ''N/A''
      | Undefined \<Rightarrow> ''N/A''
      | Str s \<Rightarrow>
          if s = [] then ''N/A''
          else (case getTime s of
                  None \<Rightarrow> ''NaNd ago''
                | Some t \<Rightarrow>
                    let diff = now - t;
                        mins = diff div 60000
                    in if mins < 1 then ''just now''
                       else if mins < 60 then js_String mins @ ''m ago''
                       else let hrs = mins div 60
                            in if hrs < 24 then js_String hrs @ ''h ago''
                               else js_String (hrs div 24) @ ''d ago''))"

section \<open>The dashboard component and its environment\<close>

text \<open>
  Values decoded from a response body or from a pushed message. A \<open>JObj\<close> lists the
  object's own properties (each key once).
\<close>

datatype json = JNull | JBool bool | JNum int | JStr string | JArr "json list"
  | JObj "(string \<times> json) list"

datatype js_error = TypeError string | SyntaxError string

text \<open>
  What the two awaits of a query meet: \<open>await fetch(url)\<close> rejects (no connection), or
  it resolves and \<open>await res.json()\<close> rejects (the body does not parse), or both resolve
  to the decoded body.
\<close>

datatype 'a reply = FetchRejects js_error | JsonRejects js_error | Json 'a

record request =
  http_method :: string
  path :: string
  params :: "(string \<times> string) list"

record activity_row =
  source :: string
  hour :: string
  count :: int

datatype callback = RenderChart | ConnectSSE | FetchAll

text \<open>
  The object returned by \<open>dashboard()\<close>, and around it what its methods act on: the
  console, the rejections nobody handled, the requests sent, the callbacks queued with
  \<open>$nextTick\<close>, the timers, the event sources constructed and the clock.
  \<open>loadingWrites\<close> lists the values assigned to \<open>this.loading\<close>, oldest first.
\<close>

record dashboard =
  tab :: string
  sourceFilter :: string
  searchQuery :: string
  posts :: json
  trends :: json
  stats :: json
  sourceStats :: json
  runs :: json
  activityData :: "activity_row list"
  sseConnected :: bool
  loading :: bool
  lastUpdate :: "string option"

record world = dashboard +
  console :: "(string \<times> js_error) list"
  unhandled :: "js_error list"
  requests :: "request list"
  loadingWrites :: "bool list"
  nextTick :: "callback list"
  timers :: "(nat \<times> callback) list"
  intervals :: "(nat \<times> callback) list"
  eventSources :: nat
  clock :: nat

definition initial :: world where
  "initial =
     \<lparr>tab = ''overview'', sourceFilter = ''all'', searchQuery = [],
      posts = JArr [], trends = JArr [],
      stats = JObj [(''total_posts'', JNum 0), (''posts_today'', JNum 0),
                    (''avg_engagement'', JNum 0), (''per_source'', JObj [])],
      sourceStats = JArr [], runs = JArr [], activityData = [],
      sseConnected = False, loading = True, lastUpdate = None,
      console = [], unhandled = [], requests = [], loadingWrites = [], nextTick = [],
      timers = [], intervals = [], eventSources = 0, clock = 0\<rparr>"

text \<open>
  A method ends normally or throws; either way the state it has reached stays. An
  \<open>async\<close> method that throws is a promise that rejects.
\<close>

datatype 'w completion = Normal 'w | Throw js_error 'w

definition try_catch ::
    "('w \<Rightarrow> 'w completion) \<Rightarrow> (js_error \<Rightarrow> 'w \<Rightarrow> 'w completion) \<Rightarrow> 'w \<Rightarrow> 'w completion" where
  "try_catch body handler w =
     (case body w of Normal w' \<Rightarrow> Normal w' | Throw e w' \<Rightarrow> handler e w')"

definition console_error :: "string \<Rightarrow> js_error \<Rightarrow> world \<Rightarrow> world" where
  "console_error msg e w = w\<lparr>console := console w @ [(msg, e)]\<rparr>"

definition fetch :: "request \<Rightarrow> world \<Rightarrow> world" where
  "fetch req w = w\<lparr>requests := requests w @ [req]\<rparr>"

definition set_loading :: "bool \<Rightarrow> world \<Rightarrow> world" where
  "set_loading b w = w\<lparr>loading := b, loadingWrites := loadingWrites w @ [b]\<rparr>"

text \<open>
  \<open>URLSearchParams.set\<close>: the first pair with the name takes the value and the others
  with the name go; a new name is appended.
\<close>

fun params_set :: "(string \<times> string) list \<Rightarrow> string \<Rightarrow> string \<Rightarrow> (string \<times> string) list" where
  "params_set [] k v = [(k, v)]"
| "params_set ((k', v') # ps) k v =
     (if k' = k then (k, v) # filter (\<lambda>p. fst p \<noteq> k) ps else (k', v') # params_set ps k v)"

section \<open>Data fetching\<close>

text \<open>
  Each query method runs to its first \<open>await\<close> when it is called (the request leaves
  then, built from the filters of that moment) and goes on when the reply is there.
  \<open>fetchPosts_request\<close> and its siblings are the first half; the second half takes the
  reply. A request is kept as method, path and parameter list; the URL is the path, a
  question mark and the parameters in this order.
\<close>

definition fetchPosts_request :: "world \<Rightarrow> request" where
  "fetchPosts_request w =
     (let params = [(''limit'', ''50''), (''order'', ''desc''), (''sort'', ''engagement_score'')];
          params = (if sourceFilter w \<noteq> ''all''
                    then params_set params ''source'' (sourceFilter w) else params);
          params = (if searchQuery w \<noteq> []
                    then params_set params ''search'' (searchQuery w) else params)
      in \<lparr>http_method = ''GET'', path = ''/api/posts'', params = params\<rparr>)"

definition fetchTrends_request :: "world \<Rightarrow> request" where
  "fetchTrends_request w =
     (let params = [(''limit'', ''15'')];
          params = (if sourceFilter w \<noteq> ''all''
                    then params_set params ''source'' (sourceFilter w) else params)
      in \<lparr>http_method = ''GET'', path = ''/api/trends'', params = params\<rparr>)"

definition fetchPosts_reply :: "json reply \<Rightarrow> world \<Rightarrow> world completion" where
  "fetchPosts_reply r =
     try_catch
       (\<lambda>w. case r of FetchRejects e \<Rightarrow> Throw e w | JsonRejects e \<Rightarrow> Throw e w
             | Json v \<Rightarrow> Normal (w\<lparr>posts := v\<rparr>))
       (\<lambda>e w. Normal (console_error ''Failed to fetch posts:'' e w))"

definition fetchStats_reply :: "json reply \<Rightarrow> world \<Rightarrow> world completion" where
  "fetchStats_reply r =
     try_catch
       (\<lambda>w. case r of FetchRejects e \<Rightarrow> Throw e w | JsonRejects e \<Rightarrow> Throw e w
             | Json v \<Rightarrow> Normal (w\<lparr>stats := v\<rparr>))
       (\<lambda>e w. Normal (console_error ''Failed to fetch stats:'' e w))"

definition fetchTrends_reply :: "json reply \<Rightarrow> world \<Rightarrow> world completion" where
  "fetchTrends_reply r =
     try_catch
       (\<lambda>w. case r of FetchRejects e \<Rightarrow> Throw e w | JsonRejects e \<Rightarrow> Throw e w
             | Json v \<Rightarrow> Normal (w\<lparr>trends := v\<rparr>))
       (\<lambda>e w. Normal (console_error ''Failed to fetch trends:'' e w))"

definition fetchSourceStats_reply :: "json reply \<Rightarrow> world \<Rightarrow> world completion" where
  "fetchSourceStats_reply r =
     try_catch
       (\<lambda>w. case r of FetchRejects e \<Rightarrow> Throw e w | JsonRejects e \<Rightarrow> Throw e w
             | Json v \<Rightarrow> Normal (w\<lparr>sourceStats := v\<rparr>))
       (\<lambda>e w. Normal (console_error ''Failed to fetch source stats:'' e w))"

definition fetchRuns_reply :: "json reply \<Rightarrow> world \<Rightarrow> world completion" where
  "fetchRuns_reply r =
     try_catch
       (\<lambda>w. case r of FetchRejects e \<Rightarrow> Throw e w | JsonRejects e \<Rightarrow> Throw e w
             | Json v \<Rightarrow> Normal (w\<lparr>runs := v\<rparr>))
       (\<lambda>e w. Normal (console_error ''Failed to fetch runs:'' e w))"

definition fetchActivity_reply :: "activity_row list reply \<Rightarrow> world \<Rightarrow> world completion" where
  "fetchActivity_reply r =
     try_catch
       (\<lambda>w. case r of FetchRejects e \<Rightarrow> Throw e w | JsonRejects e \<Rightarrow> Throw e w
             | Json v \<Rightarrow> Normal (w\<lparr>activityData := v, nextTick := nextTick w @ [RenderChart]\<rparr>))
       (\<lambda>e w. Normal (console_error ''Failed to fetch activity:'' e w))"

definition fetchStats_request :: request where
  "fetchStats_request = \<lparr>http_method = ''GET'', path = ''/api/posts/stats'', params = []\<rparr>"

definition fetchSourceStats_request :: request where
  "fetchSourceStats_request = \<lparr>http_method = ''GET'', path = ''/api/sources/stats'', params = []\<rparr>"

definition fetchRuns_request :: request where
  "fetchRuns_request =
     \<lparr>http_method = ''GET'', path = ''/api/sources/runs'', params = [(''limit'', ''10'')]\<rparr>"

definition fetchActivity_request :: request where
  "fetchActivity_request =
     \<lparr>http_method = ''GET'', path = ''/api/posts/activity'', params = [(''hours'', ''24'')]\<rparr>"

text \<open>The six methods called on their own: the request, then the reply.\<close>

definition fetchPosts :: "json reply \<Rightarrow> world \<Rightarrow> world completion" where
  "fetchPosts r w = fetchPosts_reply r (fetch (fetchPosts_request w) w)"

definition fetchStats :: "json reply \<Rightarrow> world \<Rightarrow> world completion" where
  "fetchStats r w = fetchStats_reply r (fetch fetchStats_request w)"

definition fetchTrends :: "json reply \<Rightarrow> world \<Rightarrow> world completion" where
  "fetchTrends r w = fetchTrends_reply r (fetch (fetchTrends_request w) w)"

definition fetchSourceStats :: "json reply \<Rightarrow> world \<Rightarrow> world completion" where
  "fetchSourceStats r w = fetchSourceStats_reply r (fetch fetchSourceStats_request w)"

definition fetchRuns :: "json reply \<Rightarrow> world \<Rightarrow> world completion" where
  "fetchRuns r w = fetchRuns_reply r (fetch fetchRuns_request w)"

definition fetchActivity :: "activity_row list reply \<Rightarrow> world \<Rightarrow> world completion" where
  "fetchActivity r w = fetchActivity_reply r (fetch fetchActivity_request w)"

subsection \<open>The orchestrated refresh\<close>

text \<open>
  \<open>fetchAll\<close> calls the six methods in a row, so the six requests leave in that order,
  and awaits \<open>Promise.all\<close> of their promises. The replies come in an order the network
  chooses: \<open>settle_order\<close> lists the queries as they settle (a query listed twice
  settles at its last mention, one not listed settles after the listed ones, in call
  order). Every continuation runs, also after another one has rejected;
  \<open>Promise.all\<close> rejects with the first rejection.
\<close>

datatype query = Posts | Stats | Trends | SourceStats | Runs | Activity

record refresh_env =
  posts_reply :: "json reply"
  stats_reply :: "json reply"
  trends_reply :: "json reply"
  sourceStats_reply :: "json reply"
  runs_reply :: "json reply"
  activity_reply :: "activity_row list reply"
  settle_order :: "query list"
  timeString :: string

definition all_queries :: "query list" where
  "all_queries = [Posts, Stats, Trends, SourceStats, Runs, Activity]"

definition settle_schedule :: "query list \<Rightarrow> query list" where
  "settle_schedule order = remdups order @ filter (\<lambda>q. q \<notin> set order) all_queries"

definition request_of :: "query \<Rightarrow> world \<Rightarrow> request" where
  "request_of q w =
     (case q of
        Posts \<Rightarrow> fetchPosts_request w
      | Stats \<Rightarrow> fetchStats_request
      | Trends \<Rightarrow> fetchTrends_request w
      | SourceStats \<Rightarrow> fetchSourceStats_request
      | Runs \<Rightarrow> fetchRuns_request
      | Activity \<Rightarrow> fetchActivity_request)"

definition reply_of :: "refresh_env \<Rightarrow> query \<Rightarrow> world \<Rightarrow> world completion" where
  "reply_of env q =
     (case q of
        Posts \<Rightarrow> fetchPosts_reply (posts_reply env)
      | Stats \<Rightarrow> fetchStats_reply (stats_reply env)
      | Trends \<Rightarrow> fetchTrends_reply (trends_reply env)
      | SourceStats \<Rightarrow> fetchSourceStats_reply (sourceStats_reply env)
      | Runs \<Rightarrow> fetchRuns_reply (runs_reply env)
      | Activity \<Rightarrow> fetchActivity_reply (activity_reply env))"

fun settle_all ::
    "refresh_env \<Rightarrow> query list \<Rightarrow> js_error option \<Rightarrow> world \<Rightarrow> js_error option \<times> world" where
  "settle_all env [] err w = (err, w)"
| "settle_all env (q # qs) err w =
     (case reply_of env q w of
        Normal w' \<Rightarrow> settle_all env qs err w'
      | Throw e w' \<Rightarrow> settle_all env qs (if err = None then Some e else err) w')"

definition fetchAll :: "refresh_env \<Rightarrow> world \<Rightarrow> world completion" where
  "fetchAll env w =
     (let w1 = set_loading True w;
          w2 = foldl (\<lambda>w q. fetch (request_of q w) w) w1 all_queries
      in case settle_all env (settle_schedule (settle_order env)) None w2 of
           (Some e, w3) \<Rightarrow> Throw e w3
         | (None, w3) \<Rightarrow> Normal ((set_loading False w3)\<lparr>lastUpdate := Some (timeString env)\<rparr>))"

subsection \<open>Manual scrape trigger\<close>

definition triggerScrape :: "string \<Rightarrow> json reply \<Rightarrow> refresh_env \<Rightarrow> world \<Rightarrow> world completion" where
  "triggerScrape src r env =
     try_catch
       (\<lambda>w. let w1 = fetch \<lparr>http_method = ''POST'', path = ''/api/scraper/run/'' @ src, params = []\<rparr> w
             in case r of FetchRejects e \<Rightarrow> Throw e w1 | JsonRejects e \<Rightarrow> Throw e w1
                | Json data \<Rightarrow> fetchAll env w1)
       (\<lambda>e w. Normal (console_error ''Failed to trigger scrape:'' e w))"

section \<open>The event stream\<close>

text \<open>
  A call that is not awaited: a rejection of its promise is thrown nowhere, it is
  reported as unhandled.
\<close>

definition detached :: "world completion \<Rightarrow> world" where
  "detached c = (case c of Normal w \<Rightarrow> w | Throw e w \<Rightarrow> w\<lparr>unhandled := unhandled w @ [e]\<rparr>)"

text \<open>
  \<open>data.event\<close> on what \<open>JSON.parse\<close> returned: reading a property of \<open>null\<close> throws, an
  object gives its member, every other value (boolean, number, string, array) gives
  \<open>undefined\<close>, here \<open>None\<close>.
\<close>

definition event_of :: "json \<Rightarrow> js_error + json option" where
  "event_of d =
     (case d of
        JNull \<Rightarrow> Inl (TypeError ''Cannot read properties of null'')
      | JObj members \<Rightarrow> Inr (map_of members ''event'')
      | _ \<Rightarrow> Inr None)"

definition setTimeout :: "callback \<Rightarrow> nat \<Rightarrow> world \<Rightarrow> world" where
  "setTimeout cb delay w = w\<lparr>timers := timers w @ [(clock w + delay, cb)]\<rparr>"

definition setInterval :: "callback \<Rightarrow> nat \<Rightarrow> world \<Rightarrow> world" where
  "setInterval cb period w = w\<lparr>intervals := intervals w @ [(period, cb)]\<rparr>"

text \<open>
  \<open>connectSSE\<close> constructs an \<open>EventSource\<close> (they are numbered from 0 as they are
  constructed) and gives it the three handlers below. It closes none.
\<close>

definition connectSSE :: "world \<Rightarrow> world" where
  "connectSSE w = w\<lparr>eventSources := eventSources w + 1\<rparr>"

definition es_onopen :: "world \<Rightarrow> world" where
  "es_onopen w = w\<lparr>sseConnected := True\<rparr>"

definition es_onmessage ::
    "(string \<Rightarrow> js_error + json) \<Rightarrow> refresh_env \<Rightarrow> string \<Rightarrow> world \<Rightarrow> world completion" where
  "es_onmessage JSON_parse env data w =
     (if data = [] then Normal w
      else try_catch
             (\<lambda>w. case JSON_parse data of
                     Inl e \<Rightarrow> Throw e w
                   | Inr d \<Rightarrow>
                       (case event_of d of
                          Inl e \<Rightarrow> Throw e w
                        | Inr ev \<Rightarrow>
                            if ev = Some (JStr ''scrape_complete'')
                            then Normal (detached (fetchAll env w))
                            else Normal w))
             (\<lambda>e w. Normal w) w)"

definition es_onerror :: "world \<Rightarrow> world" where
  "es_onerror w = setTimeout ConnectSSE 5000 (w\<lparr>sseConnected := False\<rparr>)"

definition init :: "refresh_env \<Rightarrow> world \<Rightarrow> world completion" where
  "init env w =
     (case fetchAll env w of
        Throw e w' \<Rightarrow> Throw e w'
      | Normal w' \<Rightarrow> Normal (setInterval FetchAll 30000 (connectSSE w')))"

text \<open>
  What the browser does to the channel: an event source that has been constructed opens
  or reports an error (as often as its connection is lost or refused), time passes, and
  a timer whose time has come fires and is gone. \<open>step\<close> is \<open>None\<close> where the event
  cannot happen.
\<close>

datatype event = EsOpen nat | EsError nat | TimePasses nat | TimerFires nat

definition run_callback :: "callback \<Rightarrow> world \<Rightarrow> world" where
  "run_callback cb w = (case cb of ConnectSSE \<Rightarrow> connectSSE w | _ \<Rightarrow> w)"

definition step :: "event \<Rightarrow> world \<Rightarrow> world option" where
  "step ev w =
     (case ev of
        EsOpen k \<Rightarrow> if k < eventSources w then Some (es_onopen w) else None
      | EsError k \<Rightarrow> if k < eventSources w then Some (es_onerror w) else None
      | TimePasses d \<Rightarrow> Some (w\<lparr>clock := clock w + d\<rparr>)
      | TimerFires i \<Rightarrow>
          if i < length (timers w) \<and> fst (timers w ! i) \<le> clock w
          then Some (run_callback (snd (timers w ! i))
                       (w\<lparr>timers := take i (timers w) @ drop (Suc i) (timers w)\<rparr>))
          else None)"

fun run :: "event list \<Rightarrow> world \<Rightarrow> world option" where
  "run [] w = Some w"
| "run (ev # evs) w = (case step ev w of None \<Rightarrow> None | Some w' \<Rightarrow> run evs w')"

section \<open>Chart rendering\<close>

text \<open>
  \<open>renderChart\<close> keeps its groups in plain objects: \<open>sources\<close> maps a source tag to an
  object that maps an hour to a count, \<open>colors\<close> maps a tag to a colour. Reading
  \<open>o[k]\<close> on a plain object finds the object's own property, or else what
  \<open>Object.prototype\<close> holds under \<open>k\<close>: a number that an earlier assignment has put
  there, or one of the members every object inherits.
\<close>

definition object_prototype_members :: "string list" where
  "object_prototype_members =
     [''constructor'', ''__defineGetter__'', ''__defineSetter__'', ''hasOwnProperty'',
      ''__lookupGetter__'', ''__lookupSetter__'', ''isPrototypeOf'', ''propertyIsEnumerable'',
      ''toString'', ''valueOf'', ''__proto__'', ''toLocaleString'']"

datatype 'a property = Own 'a | Assigned int | Member string | Absent

datatype js_value = Number int | Text string | Inherited string

record dataset =
  label :: string
  data :: "js_value list"
  borderColor :: js_value
  backgroundColor :: string
  fill :: bool
  tension :: rat
  pointRadius :: nat
  borderWidth :: nat

record chart_config =
  chart_type :: string
  labels :: "string list"
  datasets :: "dataset list"
  options :: json

record chart =
  config :: chart_config
  destroyed :: bool

text \<open>
  The page around the component: \<open>window._activityChart\<close> (the index of a chart among
  all charts constructed so far, oldest first), the numeric properties assigned on
  \<open>Object.prototype\<close>, and the number assigned to \<open>Object.entries\<close> if one was.
\<close>

record window =
  activityChart :: "nat option"
  charts :: "chart list"
  Object_prototype :: "(string \<times> int) list"
  Object_entries :: "int option"

definition initial_window :: window where
  "initial_window =
     \<lparr>activityChart = None, charts = [], Object_prototype = [], Object_entries = None\<rparr>"

definition get :: "window \<Rightarrow> (string \<times> 'a) list \<Rightarrow> string \<Rightarrow> 'a property" where
  "get win own k =
     (case map_of own k of
        Some v \<Rightarrow> Own v
      | None \<Rightarrow>
          (case map_of (Object_prototype win) k of
             Some n \<Rightarrow> Assigned n
           | None \<Rightarrow> if k \<in> set object_prototype_members then Member k else Absent))"

text \<open>
  \<open>o[h] = c\<close> with a number \<open>c\<close>, on an object whose own properties are \<open>own\<close>: the
  name \<open>__proto__\<close> is a setter that ignores a number, every other name becomes or stays
  an own property.
\<close>

definition assign :: "(string \<times> int) list \<Rightarrow> string \<Rightarrow> int \<Rightarrow> (string \<times> int) list" where
  "assign own h c = (if h = ''__proto__'' then own else AList.update h c own)"

text \<open>
  One turn of the loop over the rows. \<open>sources[row.source]\<close> is an own group (it takes
  the count), or absent or an assigned 0 (a new group is made and takes the count), or
  an assigned number other than 0 (assigning on a number does nothing), or an inherited
  member: then the count lands on that member, which is \<open>Object.prototype\<close> itself for
  \<open>__proto__\<close> and the function \<open>Object\<close> for \<open>constructor\<close>.
\<close>

definition group_row ::
    "activity_row \<Rightarrow> (string \<times> (string \<times> int) list) list \<times> window
      \<Rightarrow> (string \<times> (string \<times> int) list) list \<times> window" where
  "group_row row = (\<lambda>(sources, win).
     case get win sources (source row) of
       Own hourMap \<Rightarrow>
         (AList.update (source row) (assign hourMap (hour row) (count row)) sources, win)
     | Absent \<Rightarrow> (sources @ [(source row, assign [] (hour row) (count row))], win)
     | Assigned n \<Rightarrow>
         if n = 0 then (sources @ [(source row, assign [] (hour row) (count row))], win)
         else (sources, win)
     | Member m \<Rightarrow>
         if m = ''__proto__''
         then (sources,
               win\<lparr>Object_prototype := assign (Object_prototype win) (hour row) (count row)\<rparr>)
         else if m = ''constructor'' \<and> hour row = ''entries''
         then (sources, win\<lparr>Object_entries := Some (count row)\<rparr>)
         else (sources, win))"

text \<open>\<open>[...new Set(xs)]\<close>: the elements in the order of their first occurrence.\<close>

fun Set_of :: "'a list \<Rightarrow> 'a list" where
  "Set_of [] = []"
| "Set_of (x # xs) = x # filter (\<lambda>y. y \<noteq> x) (Set_of xs)"

text \<open>
  \<open>Array.prototype.sort\<close> without a comparator orders strings by their code units; for
  the ASCII strings of a timestamp that is the lexicographic order of \<open>string\<close>.
\<close>

definition allHours :: "activity_row list \<Rightarrow> string list" where
  "allHours rows = sort (Set_of (map hour rows))"

text \<open>
  \<open>Object.entries\<close> lists the own properties: first those whose name is an array index
  (a decimal number below \<open>2 ^ 32 - 1\<close> without a leading zero) by value, then the others
  as they were created.
\<close>

fun int_of_digits :: "int \<Rightarrow> string \<Rightarrow> int" where
  "int_of_digits acc [] = acc"
| "int_of_digits acc (c # cs) = int_of_digits (10 * acc + (of_char c - 48)) cs"

definition is_array_index :: "string \<Rightarrow> bool" where
  "is_array_index k =
     (k \<noteq> [] \<and> list_all (\<lambda>c. CHR ''0'' \<le> c \<and> c \<le> CHR ''9'') k
      \<and> (k = ''0'' \<or> hd k \<noteq> CHR ''0'') \<and> length k \<le> 10 \<and> int_of_digits 0 k < 4294967295)"

definition entries :: "(string \<times> 'a) list \<Rightarrow> (string \<times> 'a) list" where
  "entries own =
     sort_key (\<lambda>p. int_of_digits 0 (fst p)) (filter (\<lambda>p. is_array_index (fst p)) own)
     @ filter (\<lambda>p. \<not> is_array_index (fst p)) own"

definition colors :: "(string \<times> string) list" where
  "colors = [(''reddit'', ''#ff4500''), (''twitter'', ''#1d9bf0''), (''news'', ''#22c55e'')]"

text \<open>\<open>hourMap[h] || 0\<close> and \<open>colors[src] || '#8b5cf6'\<close>.\<close>

definition count_or_zero :: "int property \<Rightarrow> js_value" where
  "count_or_zero p =
     (case p of
        Own c \<Rightarrow> Number c
      | Assigned n \<Rightarrow> Number n
      | Member m \<Rightarrow> Inherited m
      | Absent \<Rightarrow> Number 0)"

definition color_or_default :: "string property \<Rightarrow> js_value" where
  "color_or_default p =
     (case p of
        Own s \<Rightarrow> if s = [] then Text ''#8b5cf6'' else Text s
      | Assigned n \<Rightarrow> if n = 0 then Text ''#8b5cf6'' else Number n
      | Member m \<Rightarrow> Inherited m
      | Absent \<Rightarrow> Text ''#8b5cf6'')"

text \<open>\<open>v + '20'\<close>: the value as a string, then the two characters.\<close>

definition plus_20 :: "js_value \<Rightarrow> string" where
  "plus_20 v =
     (case v of
        Number n \<Rightarrow> js_String n @ ''20''
      | Text s \<Rightarrow> s @ ''20''
      | Inherited m \<Rightarrow>
          (if m = ''__proto__'' then ''[object Object]''
           else ''function '' @ m @ ''() { [native code] }'') @ ''20'')"

definition chart_options :: json where
  "chart_options =
     JObj [(''responsive'', JBool True), (''maintainAspectRatio'', JBool False),
       (''interaction'', JObj [(''mode'', JStr ''index''), (''intersect'', JBool False)]),
       (''plugins'', JObj
          [(''legend'', JObj [(''labels'', JObj [(''color'', JStr ''#94a3b8''),
              (''usePointStyle'', JBool True), (''pointStyle'', JStr ''circle'')])]),
           (''tooltip'', JObj [(''backgroundColor'', JStr ''#1f2937''),
              (''titleColor'', JStr ''#f1f5f9''), (''bodyColor'', JStr ''#94a3b8'')])]),
       (''scales'', JObj
          [(''x'', JObj [(''grid'', JObj [(''color'', JStr ''#1f293750'')]),
              (''ticks'', JObj [(''color'', JStr ''#64748b''), (''maxTicksLimit'', JNum 12)])]),
           (''y'', JObj [(''grid'', JObj [(''color'', JStr ''#1f293750'')]),
              (''ticks'', JObj [(''color'', JStr ''#64748b'')]),
              (''beginAtZero'', JBool True)])])]"

text \<open>
  The two functions of the runtime that depend on the locale are parameters:
  \<open>toLocaleTimeString\<close> gives the label of an hour (\<open>new Date(h + 'Z')\<close> formatted with
  two-digit hour and minute: a time of day in the browser's zone and locale, the same
  for the same hour of two days), \<open>toUpperCase\<close> the upper case of a string.
\<close>

definition make_dataset ::
    "(string \<Rightarrow> string) \<Rightarrow> window \<Rightarrow> string list \<Rightarrow> string \<times> (string \<times> int) list \<Rightarrow> dataset" where
  "make_dataset toUpperCase win hours = (\<lambda>(src, hourMap).
     \<lparr>label = toUpperCase (take 1 src) @ drop 1 src,
      data = map (\<lambda>h. count_or_zero (get win hourMap h)) hours,
      borderColor = color_or_default (get win colors src),
      backgroundColor = plus_20 (color_or_default (get win colors src)),
      fill = True, tension = 35 / 100, pointRadius = 0, borderWidth = 2\<rparr>)"

definition destroy :: "nat \<Rightarrow> window \<Rightarrow> window" where
  "destroy i win =
     (if i < length (charts win)
      then win\<lparr>charts := (charts win)[i := (charts win ! i)\<lparr>destroyed := True\<rparr>]\<rparr>
      else win)"

definition new_Chart :: "chart_config \<Rightarrow> window \<Rightarrow> window" where
  "new_Chart cfg win =
     win\<lparr>charts := charts win @ [\<lparr>config = cfg, destroyed = False\<rparr>],
         activityChart := Some (length (charts win))\<rparr>"

text \<open>
  \<open>canvas\<close> tells whether \<open>document.getElementById('activityChart')\<close> finds the element.
\<close>

definition renderChart ::
    "(string \<Rightarrow> string) \<Rightarrow> (string \<Rightarrow> string) \<Rightarrow> bool \<Rightarrow> activity_row list \<Rightarrow> window
      \<Rightarrow> window completion" where
  "renderChart toLocaleTimeString toUpperCase canvas rows win =
     (if \<not> canvas then Normal win
      else
        let win1 = (case activityChart win of Some i \<Rightarrow> destroy i win | None \<Rightarrow> win);
            (sources, win2) = fold group_row rows ([], win1);
            hours = allHours rows;
            labels = map toLocaleTimeString hours
        in case Object_entries win2 of
             Some n \<Rightarrow> Throw (TypeError ''Object.entries is not a function'') win2
           | None \<Rightarrow>
               Normal (new_Chart
                 \<lparr>chart_type = ''line'', labels = labels,
                  datasets = map (make_dataset toUpperCase win2 hours) (entries sources),
                  options = chart_options\<rparr> win2))"

section \<open>Notions used in the statements\<close>

text \<open>The state a completion carries, and whether and how a query failed.\<close>

definition world_of :: "'w completion \<Rightarrow> 'w" where
  "world_of c = (case c of Normal w \<Rightarrow> w | Throw e w \<Rightarrow> w)"

definition failure :: "'a reply \<Rightarrow> js_error option" where
  "failure r = (case r of FetchRejects e \<Rightarrow> Some e | JsonRejects e \<Rightarrow> Some e | Json v \<Rightarrow> None)"

text \<open>The number of places where a sequence of flag values goes from true to false.\<close>

fun falls :: "bool list \<Rightarrow> nat" where
  "falls (a # b # bs) = (if a \<and> \<not> b then 1 else 0) + falls (b # bs)"
| "falls bs = 0"

definition param :: "request \<Rightarrow> string \<Rightarrow> string option" where
  "param req k = map_of (params req) k"

text \<open>What a query writes to the console when its reply has come.\<close>

definition log_of :: "refresh_env \<Rightarrow> query \<Rightarrow> (string \<times> js_error) list" where
  "log_of env q =
     (case q of
        Posts \<Rightarrow> (case failure (posts_reply env) of Some e \<Rightarrow> [(''Failed to fetch posts:'', e)] | None \<Rightarrow> [])
      | Stats \<Rightarrow> (case failure (stats_reply env) of Some e \<Rightarrow> [(''Failed to fetch stats:'', e)] | None \<Rightarrow> [])
      | Trends \<Rightarrow> (case failure (trends_reply env) of Some e \<Rightarrow> [(''Failed to fetch trends:'', e)] | None \<Rightarrow> [])
      | SourceStats \<Rightarrow> (case failure (sourceStats_reply env) of Some e \<Rightarrow> [(''Failed to fetch source stats:'', e)] | None \<Rightarrow> [])
      | Runs \<Rightarrow> (case failure (runs_reply env) of Some e \<Rightarrow> [(''Failed to fetch runs:'', e)] | None \<Rightarrow> [])
      | Activity \<Rightarrow> (case failure (activity_reply env) of Some e \<Rightarrow> [(''Failed to fetch activity:'', e)] | None \<Rightarrow> []))"

text \<open>
  The two halves of \<open>fetchAll\<close>: the state when the six requests have left, and the state
  when the replies of the given queries have been handled.
\<close>

definition started :: "world \<Rightarrow> world" where
  "started w = foldl (\<lambda>w q. fetch (request_of q w) w) (set_loading True w) all_queries"

definition settled :: "refresh_env \<Rightarrow> query list \<Rightarrow> world \<Rightarrow> world" where
  "settled env qs w = foldl (\<lambda>w q. world_of (reply_of env q w)) w qs"

text \<open>The console entries written between two states.\<close>

definition logged :: "world \<Rightarrow> world \<Rightarrow> (string \<times> js_error) list" where
  "logged w w' = drop (length (console w)) (console w')"

definition trigger_request :: "string \<Rightarrow> request" where
  "trigger_request src = \<lparr>http_method = ''POST'', path = ''/api/scraper/run/'' @ src, params = []\<rparr>"

text \<open>
  A pushed message announces a finished scrape: its payload is not empty, parses as an
  object, and the object's \<open>event\<close> member is the string \<open>scrape_complete\<close>.
\<close>

definition is_scrape_complete :: "(string \<Rightarrow> js_error + json) \<Rightarrow> string \<Rightarrow> bool" where
  "is_scrape_complete JSON_parse payload =
     (payload \<noteq> [] \<and>
      (case JSON_parse payload of
         Inr (JObj members) \<Rightarrow> map_of members ''event'' = Some (JStr ''scrape_complete'')
       | _ \<Rightarrow> False))"




definition destroy_previous :: "window \<Rightarrow> window" where
  "destroy_previous win = (case activityChart win of Some i \<Rightarrow> destroy i win | None \<Rightarrow> win)"

text \<open>
  A key is ordinary when plain objects inherit no member of that name. \<open>latest rows s h\<close>
  is the count of the last row for source \<open>s\<close> and hour \<open>h\<close>, \<open>count_at\<close> the same with 0
  where there is no such row. \<open>rendered\<close> is the configuration of the chart a call of
  \<open>renderChart\<close> has constructed. \<open>grouped rows srcs\<close>: the groups \<open>srcs\<close> hold, source by
  source and hour by hour, the latest counts of \<open>rows\<close>.
\<close>

definition ordinary :: "string \<Rightarrow> bool" where
  "ordinary k = (k \<notin> set object_prototype_members)"

definition latest :: "activity_row list \<Rightarrow> string \<Rightarrow> string \<Rightarrow> int option" where
  "latest rows s h =
     (let rs = filter (\<lambda>r. source r = s \<and> hour r = h) rows
      in if rs = [] then None else Some (count (last rs)))"

definition count_at :: "activity_row list \<Rightarrow> string \<Rightarrow> string \<Rightarrow> int" where
  "count_at rows s h = (case latest rows s h of Some c \<Rightarrow> c | None \<Rightarrow> 0)"

definition rendered :: "window completion \<Rightarrow> chart_config option" where
  "rendered c =
     (case c of
        Normal win \<Rightarrow> if charts win = [] then None else Some (config (last (charts win)))
      | Throw e win \<Rightarrow> None)"

definition grouped :: "activity_row list \<Rightarrow> (string \<times> (string \<times> int) list) list \<Rightarrow> bool" where
  "grouped rows srcs =
     (distinct (map fst srcs) \<and>
      (\<forall>s. map_option map_of (map_of srcs s)
            = (if s \<in> source ` set rows then Some (latest rows s) else None)))"

subsection \<open>Example data\<close>

definition failing_env :: refresh_env where
  "failing_env =
     \<lparr>posts_reply = FetchRejects (TypeError ''Failed to fetch''),
      stats_reply = JsonRejects (SyntaxError ''Unexpected token''),
      trends_reply = FetchRejects (TypeError ''Failed to fetch''),
      sourceStats_reply = JsonRejects (SyntaxError ''Unexpected token''),
      runs_reply = FetchRejects (TypeError ''Failed to fetch''),
      activity_reply = FetchRejects (TypeError ''Failed to fetch''),
      settle_order = [Activity, Posts], timeString = ''10:15:00''\<rparr>"

definition ok_env :: refresh_env where
  "ok_env =
     \<lparr>posts_reply = Json (JArr []), stats_reply = Json (JObj []), trends_reply = Json (JArr []),
      sourceStats_reply = Json (JArr []), runs_reply = Json (JArr []),
      activity_reply = Json [], settle_order = [], timeString = ''10:15:00''\<rparr>"

definition row :: "string \<Rightarrow> string \<Rightarrow> int \<Rightarrow> activity_row" where
  "row s h c = \<lparr>source = s, hour = h, count = c\<rparr>"

definition example_rows :: "activity_row list" where
  "example_rows = [row ''reddit'' ''10:00'' 5, row ''reddit'' ''11:00'' 3, row ''news'' ''11:00'' 2]"

text \<open>
  \<open>toLocaleTimeString\<close> in a browser whose zone is UTC and whose locale writes 24 hours:
  the hour and minute of the timestamp. And the rows of one source over a day that
  starts and ends in the hour after 23:00.
\<close>

definition hh_mm :: "string \<Rightarrow> string" where
  "hh_mm h = take 5 (drop 11 h)"

definition midnight_rows :: "activity_row list" where
  "midnight_rows =
     [row ''reddit'' ''2024-01-01T23:00:00'' 5, row ''reddit'' ''2024-01-02T00:00:00'' 3,
      row ''reddit'' ''2024-01-02T23:00:00'' 2]"

section \<open>Properties of the formatters\<close>

lemma formatNumber_999: "formatNumber 999 = ''999''"
  by code_simp

lemma formatNumber_1000: "formatNumber 1000 = ''1.0K''"
  by code_simp

lemma formatNumber_1000000: "formatNumber 1000000 = ''1.0M''"
  by code_simp

lemma timeAgo_just_now:
  assumes "s \<noteq> []" and "getTime s = Some t" and "now - t < 60000"
  shows "timeAgo now getTime (Str s) = ''just now''"
proof -
  from assms(3) have "(now - t) div 60000 < 1"
    by (simp add: div_less_iff_less_mult)
  with assms(1,2) show ?thesis
    by (simp add: timeAgo_def Let_def)
qed

lemma js_String_1: "js_String 1 = ''1''"
  by code_simp

lemma timeAgo_one_hour:
  assumes "s \<noteq> []" and "getTime s = Some t" and "now - t = 60 * 60000"
  shows "timeAgo now getTime (Str s) = ''1h ago''"
  using assms by (simp add: timeAgo_def Let_def js_String_1)

text \<open>
  Claim C9. The count formatter renders 999 unabbreviated as "999", 1000 as "1.0K" and
  1000000 as "1.0M". The elapsed-time formatter renders every elapsed time under one
  minute (a present, parseable timestamp less than 60000 ms before the clock reading)
  as "just now", and an elapsed time of exactly 60 minutes as "1h ago".
\<close>

theorem formatting_boundaries:
  "formatNumber 999 = ''999'' \<and> formatNumber 1000 = ''1.0K'' \<and> formatNumber 1000000 = ''1.0M''
   \<and> (\<forall>now getTime s t. s \<noteq> [] \<and> getTime s = Some t \<and> now - t < 60000
         \<longrightarrow> timeAgo now getTime (Str s) = ''just now'')
   \<and> (\<forall>now getTime s t. s \<noteq> [] \<and> getTime s = Some t \<and> now - t = 60 * 60000
         \<longrightarrow> timeAgo now getTime (Str s) = ''1h ago'')"
proof (intro conjI allI impI)
  show "formatNumber 999 = ''999''" by (rule formatNumber_999)
  show "formatNumber 1000 = ''1.0K''" by (rule formatNumber_1000)
  show "formatNumber 1000000 = ''1.0M''" by (rule formatNumber_1000000)
next
  fix now :: int and getTime :: "string \<Rightarrow> int option" and s t
  assume "s \<noteq> [] \<and> getTime s = Some t \<and> now - t < 60000"
  then show "timeAgo now getTime (Str s) = ''just now''"
    by (simp add: timeAgo_just_now)
next
  fix now :: int and getTime :: "string \<Rightarrow> int option" and s t
  assume "s \<noteq> [] \<and> getTime s = Some t \<and> now - t = 60 * 60000"
  then show "timeAgo now getTime (Str s) = ''1h ago''"
    by (simp add: timeAgo_one_hour)
qed

theorem formatting_boundaries_witness:
  "timeAgo 1700000059999 (\<lambda>s. Some 1700000000000) (Str ''2023-11-14T22:13:20Z'') = ''just now''
   \<and> timeAgo 1700003600000 (\<lambda>s. Some 1700000000000) (Str ''2023-11-14T22:13:20Z'') = ''1h ago''"
proof -
  have a: "''2023-11-14T22:13:20Z'' \<noteq> []
      \<and> (\<lambda>s::string. Some (1700000000000::int)) ''2023-11-14T22:13:20Z'' = Some 1700000000000
      \<and> (1700000059999::int) - 1700000000000 < 60000"
    by simp
  have b: "''2023-11-14T22:13:20Z'' \<noteq> []
      \<and> (\<lambda>s::string. Some (1700000000000::int)) ''2023-11-14T22:13:20Z'' = Some 1700000000000
      \<and> (1700003600000::int) - 1700000000000 = 60 * 60000"
    by simp
  note fb = formatting_boundaries
  from fb have j: "\<forall>now getTime s t. s \<noteq> [] \<and> getTime s = Some t \<and> now - t < 60000
         \<longrightarrow> timeAgo now getTime (Str s) = ''just now''"
    by (elim conjE)
  from fb have h: "\<forall>now getTime s t. s \<noteq> [] \<and> getTime s = Some t \<and> now - t = 60 * 60000
         \<longrightarrow> timeAgo now getTime (Str s) = ''1h ago''"
    by (elim conjE)
  from j [rule_format, OF a] h [rule_format, OF b] show ?thesis
    by (rule conjI)
qed

text \<open>
  Claim C10. For every absent timestamp input (\<open>null\<close>, \<open>undefined\<close> or the empty
  string) \<open>timeAgo\<close> returns "N/A", whatever the clock and the date parser would give:
  no elapsed time is computed.
\<close>

theorem timeAgo_absent:
  "timeAgo now getTime Null = ''N/A'' \<and> timeAgo now getTime Undefined = ''N/A''
   \<and> timeAgo now getTime (Str []) = ''N/A''"
  by (simp add: timeAgo_def)

section \<open>Properties of the query parameters\<close>

lemma map_of_filter_other: "k' \<noteq> k \<Longrightarrow> map_of (filter (\<lambda>p. fst p \<noteq> k) ps) k' = map_of ps k'"
  by (induction ps) auto

lemma map_of_params_set: "map_of (params_set ps k v) = (map_of ps)(k \<mapsto> v)"
proof (induction ps)
  case Nil
  show ?case by simp
next
  case (Cons p ps)
  obtain k' v' where p: "p = (k', v')" by (cases p)
  show ?case
  proof (cases "k' = k")
    case True
    then show ?thesis
      using p by (auto simp: fun_eq_iff map_of_filter_other)
  next
    case False
    then show ?thesis
      using p Cons.IH by (auto simp: fun_eq_iff)
  qed
qed

lemma param_fetchPosts:
  "param (fetchPosts_request w) k =
     (if k = ''search'' \<and> searchQuery w \<noteq> [] then Some (searchQuery w)
      else if k = ''source'' \<and> sourceFilter w \<noteq> ''all'' then Some (sourceFilter w)
      else map_of [(''limit'', ''50''), (''order'', ''desc''), (''sort'', ''engagement_score'')] k)"
  by (simp add: param_def fetchPosts_request_def Let_def map_of_params_set)

lemma param_fetchTrends:
  "param (fetchTrends_request w) k =
     (if k = ''source'' \<and> sourceFilter w \<noteq> ''all'' then Some (sourceFilter w)
      else map_of [(''limit'', ''15'')] k)"
  by (simp add: param_def fetchTrends_request_def Let_def map_of_params_set)

text \<open>
  Claim C6, as the code has it. For every filter state the post query carries the page
  size 50, the order \<open>desc\<close> and the sort key \<open>engagement_score\<close>, and the trend query
  the limit 15. Both carry no \<open>source\<close> parameter exactly when the selected source is
  \<open>all\<close>, and otherwise the selected tag. The post query carries no \<open>search\<close> parameter
  exactly when the search text is empty, and otherwise the text; the trend query never
  carries one.
\<close>

theorem query_parameters:
  "param (fetchPosts_request w) ''limit'' = Some ''50''
   \<and> param (fetchPosts_request w) ''order'' = Some ''desc''
   \<and> param (fetchPosts_request w) ''sort'' = Some ''engagement_score''
   \<and> param (fetchPosts_request w) ''source''
       = (if sourceFilter w = ''all'' then None else Some (sourceFilter w))
   \<and> param (fetchPosts_request w) ''search''
       = (if searchQuery w = [] then None else Some (searchQuery w))
   \<and> param (fetchTrends_request w) ''limit'' = Some ''15''
   \<and> param (fetchTrends_request w) ''source''
       = (if sourceFilter w = ''all'' then None else Some (sourceFilter w))
   \<and> param (fetchTrends_request w) ''search'' = None"
  by (simp add: param_fetchPosts param_fetchTrends)

text \<open>
  The claim as stated fails for the trend query: with the search text \<open>ai\<close> it still
  carries no \<open>search\<close> parameter.
\<close>

theorem trend_query_search_counterexample:
  "searchQuery (initial\<lparr>searchQuery := ''ai''\<rparr>) \<noteq> []
   \<and> param (fetchTrends_request (initial\<lparr>searchQuery := ''ai''\<rparr>)) ''search'' = None"
  by (simp add: param_def fetchTrends_request_def initial_def)

section \<open>Properties of the orchestrated refresh\<close>

lemmas reply_defs = reply_of_def fetchPosts_reply_def fetchStats_reply_def fetchTrends_reply_def
  fetchSourceStats_reply_def fetchRuns_reply_def fetchActivity_reply_def try_catch_def
  console_error_def

lemma reply_of_Normal: "reply_of env q w = Normal (world_of (reply_of env q w))"
  by (cases q) (simp_all add: reply_defs world_of_def split: reply.splits)

lemma reply_of_console:
  "console (world_of (reply_of env q w)) = console w @ log_of env q"
  by (cases q) (simp_all add: reply_defs world_of_def log_of_def failure_def split: reply.splits)

lemma reply_of_frame:
  "loadingWrites (world_of (reply_of env q w)) = loadingWrites w"
  "loading (world_of (reply_of env q w)) = loading w"
  "requests (world_of (reply_of env q w)) = requests w"
  "unhandled (world_of (reply_of env q w)) = unhandled w"
  by (cases q; simp add: reply_defs world_of_def split: reply.splits)+

lemma reply_of_fields:
  "failure (posts_reply env) \<noteq> None \<Longrightarrow> posts (world_of (reply_of env q w)) = posts w"
  "failure (stats_reply env) \<noteq> None \<Longrightarrow> stats (world_of (reply_of env q w)) = stats w"
  "failure (trends_reply env) \<noteq> None \<Longrightarrow> trends (world_of (reply_of env q w)) = trends w"
  "failure (sourceStats_reply env) \<noteq> None \<Longrightarrow> sourceStats (world_of (reply_of env q w)) = sourceStats w"
  "failure (runs_reply env) \<noteq> None \<Longrightarrow> runs (world_of (reply_of env q w)) = runs w"
  "failure (activity_reply env) \<noteq> None \<Longrightarrow> activityData (world_of (reply_of env q w)) = activityData w"
  by (cases q; simp add: reply_defs world_of_def failure_def split: reply.splits)+

lemma settle_all_eq: "settle_all env qs err w = (err, settled env qs w)"
proof (induction qs arbitrary: w)
  case Nil
  show ?case by (simp add: settled_def)
next
  case (Cons q qs)
  show ?case
  proof (cases "reply_of env q w")
    case (Normal w')
    then show ?thesis
      using Cons.IH [of w'] by (simp add: settled_def world_of_def)
  next
    case (Throw e w')
    with reply_of_Normal [of env q w] show ?thesis
      by simp
  qed
qed

lemma settled_console:
  "console (settled env qs w) = console w @ concat (map (log_of env) qs)"
  by (induction qs arbitrary: w) (simp_all add: settled_def reply_of_console)

lemma settled_frame:
  "loadingWrites (settled env qs w) = loadingWrites w"
  "loading (settled env qs w) = loading w"
  "requests (settled env qs w) = requests w"
  "unhandled (settled env qs w) = unhandled w"
  by (induction qs arbitrary: w; simp add: settled_def reply_of_frame)+

lemma settled_fields:
  "failure (posts_reply env) \<noteq> None \<Longrightarrow> posts (settled env qs w) = posts w"
  "failure (stats_reply env) \<noteq> None \<Longrightarrow> stats (settled env qs w) = stats w"
  "failure (trends_reply env) \<noteq> None \<Longrightarrow> trends (settled env qs w) = trends w"
  "failure (sourceStats_reply env) \<noteq> None \<Longrightarrow> sourceStats (settled env qs w) = sourceStats w"
  "failure (runs_reply env) \<noteq> None \<Longrightarrow> runs (settled env qs w) = runs w"
  "failure (activity_reply env) \<noteq> None \<Longrightarrow> activityData (settled env qs w) = activityData w"
  by (induction qs arbitrary: w; simp add: settled_def reply_of_fields)+

lemma fetchAll_eq:
  "fetchAll env w =
     Normal ((set_loading False (settled env (settle_schedule (settle_order env)) (started w)))
               \<lparr>lastUpdate := Some (timeString env)\<rparr>)"
  by (simp add: fetchAll_def Let_def settle_all_eq started_def)

lemma started_frame:
  "loadingWrites (started w) = loadingWrites w @ [True]"
  "console (started w) = console w"
  "unhandled (started w) = unhandled w"
  "posts (started w) = posts w" "stats (started w) = stats w" "trends (started w) = trends w"
  "sourceStats (started w) = sourceStats w" "runs (started w) = runs w"
  "activityData (started w) = activityData w"
  by (simp_all add: started_def all_queries_def fetch_def set_loading_def)

lemma started_requests:
  "requests (started w) = requests w @ map (\<lambda>q. request_of q w) all_queries"
  by (simp add: started_def all_queries_def fetch_def set_loading_def request_of_def
      fetchPosts_request_def fetchTrends_request_def Let_def)

lemma set_all_queries: "q \<in> set all_queries"
  by (cases q) (simp_all add: all_queries_def)

lemma in_settle_schedule: "q \<in> set (settle_schedule order)"
  using set_all_queries [of q] by (auto simp: settle_schedule_def)

lemma fetchAll_console:
  "fetchAll env w = Normal w' \<Longrightarrow>
     logged w w' = concat (map (log_of env) (settle_schedule (settle_order env)))"
  by (auto simp: fetchAll_eq logged_def set_loading_def settled_console started_frame)

lemma log_of_mem:
  "log_of env q \<noteq> [] \<Longrightarrow> set (log_of env q) \<subseteq> set (concat (map (log_of env) (settle_schedule order)))"
  using in_settle_schedule [of q order] by auto

lemma fetchAll_field:
  assumes "fetchAll env w = Normal w'"
  shows "failure (posts_reply env) \<noteq> None \<Longrightarrow> posts w' = posts w"
    and "failure (stats_reply env) \<noteq> None \<Longrightarrow> stats w' = stats w"
    and "failure (trends_reply env) \<noteq> None \<Longrightarrow> trends w' = trends w"
    and "failure (sourceStats_reply env) \<noteq> None \<Longrightarrow> sourceStats w' = sourceStats w"
    and "failure (runs_reply env) \<noteq> None \<Longrightarrow> runs w' = runs w"
    and "failure (activity_reply env) \<noteq> None \<Longrightarrow> activityData w' = activityData w"
  using assms
  by (auto simp: fetchAll_eq set_loading_def settled_fields started_frame)

lemma fetchAll_logs:
  assumes "fetchAll env w = Normal w'"
  shows "failure (posts_reply env) = Some e \<Longrightarrow> (''Failed to fetch posts:'', e) \<in> set (logged w w')"
    and "failure (stats_reply env) = Some e \<Longrightarrow> (''Failed to fetch stats:'', e) \<in> set (logged w w')"
    and "failure (trends_reply env) = Some e \<Longrightarrow> (''Failed to fetch trends:'', e) \<in> set (logged w w')"
    and "failure (sourceStats_reply env) = Some e \<Longrightarrow> (''Failed to fetch source stats:'', e) \<in> set (logged w w')"
    and "failure (runs_reply env) = Some e \<Longrightarrow> (''Failed to fetch runs:'', e) \<in> set (logged w w')"
    and "failure (activity_reply env) = Some e \<Longrightarrow> (''Failed to fetch activity:'', e) \<in> set (logged w w')"
proof -
  note l = fetchAll_console [OF assms]
  show "failure (posts_reply env) = Some e \<Longrightarrow> (''Failed to fetch posts:'', e) \<in> set (logged w w')"
    using log_of_mem [of env Posts "settle_order env"] by (auto simp: l log_of_def)
  show "failure (stats_reply env) = Some e \<Longrightarrow> (''Failed to fetch stats:'', e) \<in> set (logged w w')"
    using log_of_mem [of env Stats "settle_order env"] by (auto simp: l log_of_def)
  show "failure (trends_reply env) = Some e \<Longrightarrow> (''Failed to fetch trends:'', e) \<in> set (logged w w')"
    using log_of_mem [of env Trends "settle_order env"] by (auto simp: l log_of_def)
  show "failure (sourceStats_reply env) = Some e \<Longrightarrow> (''Failed to fetch source stats:'', e) \<in> set (logged w w')"
    using log_of_mem [of env SourceStats "settle_order env"] by (auto simp: l log_of_def)
  show "failure (runs_reply env) = Some e \<Longrightarrow> (''Failed to fetch runs:'', e) \<in> set (logged w w')"
    using log_of_mem [of env Runs "settle_order env"] by (auto simp: l log_of_def)
  show "failure (activity_reply env) = Some e \<Longrightarrow> (''Failed to fetch activity:'', e) \<in> set (logged w w')"
    using log_of_mem [of env Activity "settle_order env"] by (auto simp: l log_of_def)
qed

lemma fetchAll_unhandled: "fetchAll env w = Normal w' \<Longrightarrow> unhandled w' = unhandled w"
  by (auto simp: fetchAll_eq set_loading_def settled_frame started_frame)

text \<open>
  Claim C1. In every orchestrated refresh, whatever the replies and the order in which
  they come, the call ends normally and leaves no unhandled rejection; and for each of
  the six queries (posts, stats, trends, source stats, runs, activity), if the query
  fails (the request is rejected or the body does not parse) then its field of the
  state has the value it had before the call and the failure, under the query's
  message, is among the console entries written during the call.
\<close>

theorem query_failure_isolated:
  "\<exists>w'. fetchAll env w = Normal w' \<and> unhandled w' = unhandled w
     \<and> (\<forall>e. failure (posts_reply env) = Some e \<longrightarrow>
           posts w' = posts w \<and> (''Failed to fetch posts:'', e) \<in> set (logged w w'))
     \<and> (\<forall>e. failure (stats_reply env) = Some e \<longrightarrow>
           stats w' = stats w \<and> (''Failed to fetch stats:'', e) \<in> set (logged w w'))
     \<and> (\<forall>e. failure (trends_reply env) = Some e \<longrightarrow>
           trends w' = trends w \<and> (''Failed to fetch trends:'', e) \<in> set (logged w w'))
     \<and> (\<forall>e. failure (sourceStats_reply env) = Some e \<longrightarrow>
           sourceStats w' = sourceStats w
           \<and> (''Failed to fetch source stats:'', e) \<in> set (logged w w'))
     \<and> (\<forall>e. failure (runs_reply env) = Some e \<longrightarrow>
           runs w' = runs w \<and> (''Failed to fetch runs:'', e) \<in> set (logged w w'))
     \<and> (\<forall>e. failure (activity_reply env) = Some e \<longrightarrow>
           activityData w' = activityData w
           \<and> (''Failed to fetch activity:'', e) \<in> set (logged w w'))"
proof -
  obtain w' where w': "fetchAll env w = Normal w'"
    by (simp add: fetchAll_eq)
  show ?thesis
  proof (intro exI [of _ w'] conjI allI impI)
    show "fetchAll env w = Normal w'" by (rule w')
    show "unhandled w' = unhandled w" by (rule fetchAll_unhandled [OF w'])
  qed (simp_all add: fetchAll_field [OF w'] fetchAll_logs [OF w'])
qed

theorem query_failure_isolated_witness:
  "failure (posts_reply failing_env) = Some (TypeError ''Failed to fetch'')
   \<and> failure (stats_reply failing_env) = Some (SyntaxError ''Unexpected token'')
   \<and> (\<exists>w'. fetchAll failing_env initial = Normal w'
         \<and> posts w' = posts initial
         \<and> (''Failed to fetch posts:'', TypeError ''Failed to fetch'') \<in> set (logged initial w')
         \<and> stats w' = stats initial
         \<and> (''Failed to fetch stats:'', SyntaxError ''Unexpected token'') \<in> set (logged initial w'))"
proof -
  have a: "failure (posts_reply failing_env) = Some (TypeError ''Failed to fetch'')"
    and b: "failure (stats_reply failing_env) = Some (SyntaxError ''Unexpected token'')"
    by (simp_all add: failing_env_def failure_def)
  from query_failure_isolated [of failing_env initial] a b show ?thesis
    by auto
qed

text \<open>
  Claim C2. Every call of \<open>fetchAll\<close>, whatever the six replies (all six may fail), ends
  normally; during the call \<open>loading\<close> is assigned true and then false and nothing else,
  so that it goes from true to false exactly once; and at the end \<open>loading\<close> is false and
  \<open>lastUpdate\<close> holds the time string of the moment.
\<close>

theorem fetchAll_never_throws:
  "\<exists>w'. fetchAll env w = Normal w'
     \<and> loadingWrites w' = loadingWrites w @ [True, False]
     \<and> falls (loading w # drop (length (loadingWrites w)) (loadingWrites w')) = 1
     \<and> \<not> loading w'
     \<and> lastUpdate w' = Some (timeString env)"
  by (simp add: fetchAll_eq set_loading_def settled_frame started_frame)

lemma fetchAll_requests:
  "fetchAll env w = Normal w' \<Longrightarrow>
     requests w' = requests w @ map (\<lambda>q. request_of q w) all_queries"
  by (auto simp: fetchAll_eq set_loading_def settled_frame started_requests)

text \<open>
  Claim C5, as the code has it. \<open>triggerScrape\<close> never throws. When the trigger request
  and the parsing of its response succeed, the orchestrated refresh follows (the call
  is the refresh, run after the request). When the trigger fails, the failure is logged
  and the call ends there: \<open>loading\<close> is not assigned, no refresh is started.
\<close>

theorem triggerScrape_refresh:
  "(\<forall>e. failure r = Some e \<longrightarrow>
      triggerScrape src r env w
        = Normal (console_error ''Failed to trigger scrape:'' e (fetch (trigger_request src) w)))
   \<and> (\<forall>d. r = Json d \<longrightarrow>
      triggerScrape src r env w = fetchAll env (fetch (trigger_request src) w))
   \<and> (\<exists>w'. triggerScrape src r env w = Normal w'
         \<and> loadingWrites w' = loadingWrites w @ (if failure r = None then [True, False] else []))"
proof (intro conjI allI impI)
  fix e assume "failure r = Some e"
  then show "triggerScrape src r env w
      = Normal (console_error ''Failed to trigger scrape:'' e (fetch (trigger_request src) w))"
    by (cases r) (simp_all add: triggerScrape_def try_catch_def trigger_request_def failure_def Let_def)
next
  fix d assume "r = Json d"
  then show "triggerScrape src r env w = fetchAll env (fetch (trigger_request src) w)"
    by (simp add: triggerScrape_def try_catch_def trigger_request_def Let_def fetchAll_eq)
next
  show "\<exists>w'. triggerScrape src r env w = Normal w'
         \<and> loadingWrites w' = loadingWrites w @ (if failure r = None then [True, False] else [])"
    by (cases r)
      (simp_all add: triggerScrape_def try_catch_def failure_def Let_def fetchAll_eq
        console_error_def fetch_def set_loading_def settled_frame started_frame)
qed

theorem triggerScrape_refresh_witness:
  "failure (FetchRejects (TypeError ''Failed to fetch'') :: json reply) = Some (TypeError ''Failed to fetch'')
   \<and> triggerScrape ''reddit'' (FetchRejects (TypeError ''Failed to fetch'')) ok_env initial
       = Normal (console_error ''Failed to trigger scrape:'' (TypeError ''Failed to fetch'')
                   (fetch (trigger_request ''reddit'') initial))
   \<and> triggerScrape ''reddit'' (Json JNull) ok_env initial
       = fetchAll ok_env (fetch (trigger_request ''reddit'') initial)"
proof -
  have a: "failure (FetchRejects (TypeError ''Failed to fetch'') :: json reply) = Some (TypeError ''Failed to fetch'')"
    by (simp add: failure_def)
  from triggerScrape_refresh [of "FetchRejects (TypeError ''Failed to fetch'')" "''reddit''" ok_env initial]
    triggerScrape_refresh [of "Json JNull" "''reddit''" ok_env initial] a
  show ?thesis by simp
qed

text \<open>
  The claim as stated fails: after a rejected trigger request no refresh runs. The only
  request sent is the trigger, \<open>loading\<close> is never assigned and \<open>lastUpdate\<close> stays
  unset.
\<close>

theorem triggerScrape_failure_counterexample:
  "requests (world_of (triggerScrape ''reddit'' (FetchRejects (TypeError ''Failed to fetch'')) ok_env initial))
     = [trigger_request ''reddit'']
   \<and> loadingWrites (world_of (triggerScrape ''reddit'' (FetchRejects (TypeError ''Failed to fetch'')) ok_env initial))
     = []
   \<and> lastUpdate (world_of (triggerScrape ''reddit'' (FetchRejects (TypeError ''Failed to fetch'')) ok_env initial))
     = None"
  by (simp add: triggerScrape_def try_catch_def Let_def world_of_def console_error_def fetch_def
      initial_def trigger_request_def)

section \<open>Properties of the event stream\<close>

lemma fetchAll_changes: "detached (fetchAll env w) \<noteq> w"
proof
  assume "detached (fetchAll env w) = w"
  then have "loadingWrites (detached (fetchAll env w)) = loadingWrites w"
    by simp
  then show False
    by (simp add: fetchAll_eq detached_def set_loading_def settled_frame started_frame)
qed

lemma detached_fetchAll_unhandled: "unhandled (detached (fetchAll env w)) = unhandled w"
  by (simp add: fetchAll_eq detached_def set_loading_def settled_frame started_frame)

text \<open>
  Claim C7. For every pushed message the handler ends normally. If the payload is not
  empty, parses as an object and carries the event tag \<open>scrape_complete\<close>, the
  orchestrated refresh runs; in every other case (empty payload, payload that does not
  parse, \<open>null\<close>, a value that is no object, another tag or none) the state is exactly
  what it was. A refresh always changes the state, so the two cases are told apart, and
  it leaves no unhandled rejection.
\<close>

theorem push_message_refresh:
  "es_onmessage JSON_parse env payload w =
     (if is_scrape_complete JSON_parse payload then Normal (detached (fetchAll env w)) else Normal w)
   \<and> detached (fetchAll env w) \<noteq> w
   \<and> unhandled (detached (fetchAll env w)) = unhandled w"
proof (intro conjI)
  show "es_onmessage JSON_parse env payload w =
     (if is_scrape_complete JSON_parse payload then Normal (detached (fetchAll env w)) else Normal w)"
    by (simp add: es_onmessage_def is_scrape_complete_def try_catch_def event_of_def
        split: sum.splits json.splits)
qed (rule fetchAll_changes, rule detached_fetchAll_unhandled)

theorem push_message_refresh_witness:
  "is_scrape_complete (\<lambda>s. Inr (JObj [(''event'', JStr ''scrape_complete'')])) ''x''
   \<and> es_onmessage (\<lambda>s. Inr (JObj [(''event'', JStr ''scrape_complete'')])) ok_env ''x'' initial
       = Normal (detached (fetchAll ok_env initial))
   \<and> es_onmessage (\<lambda>s. Inl (SyntaxError ''Unexpected token'')) ok_env ''x'' initial = Normal initial"
proof -
  have a: "is_scrape_complete (\<lambda>s. Inr (JObj [(''event'', JStr ''scrape_complete'')])) ''x''"
    and b: "\<not> is_scrape_complete (\<lambda>s. Inl (SyntaxError ''Unexpected token'')) ''x''"
    by (simp_all add: is_scrape_complete_def)
  from push_message_refresh [of "\<lambda>s. Inr (JObj [(''event'', JStr ''scrape_complete'')])" ok_env "''x''" initial]
    push_message_refresh [of "\<lambda>s. Inl (SyntaxError ''Unexpected token'')" ok_env "''x''" initial] a b
  show ?thesis by simp
qed

lemma step_clock: "step ev w = Some w' \<Longrightarrow> clock w \<le> clock w'"
  by (cases ev)
    (auto simp: step_def es_onopen_def es_onerror_def setTimeout_def run_callback_def
      connectSSE_def split: if_splits callback.splits)

text \<open>
  Claim C4, as the code has it. An error event of a constructed event source clears
  \<open>sseConnected\<close> and appends exactly one timer, due 5000 ms after the clock of that
  moment, whose callback is \<open>connectSSE\<close>; it constructs no event source. A timer fires
  only when the clock has reached its due time, it is then removed, and firing a
  \<open>connectSSE\<close> timer constructs exactly one new event source. The clock never goes
  back. Timers are not coalesced: each error event adds one to those pending.
\<close>

theorem reconnect_policy:
  "(k < eventSources w \<longrightarrow>
      (\<exists>w'. step (EsError k) w = Some w' \<and> \<not> sseConnected w'
         \<and> timers w' = timers w @ [(clock w + 5000, ConnectSSE)]
         \<and> eventSources w' = eventSources w))
   \<and> (\<forall>w'. step (TimerFires i) w = Some w' \<longrightarrow>
         i < length (timers w) \<and> fst (timers w ! i) \<le> clock w
         \<and> timers w' = take i (timers w) @ drop (Suc i) (timers w)
         \<and> eventSources w'
             = (if snd (timers w ! i) = ConnectSSE then eventSources w + 1 else eventSources w))
   \<and> (\<forall>ev w'. step ev w = Some w' \<longrightarrow> clock w \<le> clock w')"
proof (intro conjI allI impI)
  assume "k < eventSources w"
  then show "\<exists>w'. step (EsError k) w = Some w' \<and> \<not> sseConnected w'
         \<and> timers w' = timers w @ [(clock w + 5000, ConnectSSE)]
         \<and> eventSources w' = eventSources w"
    by (simp add: step_def es_onerror_def setTimeout_def)
next
  fix w' assume s: "step (TimerFires i) w = Some w'"
  then show "i < length (timers w)" "fst (timers w ! i) \<le> clock w"
    by (simp_all add: step_def split: if_splits)
  from s show "timers w' = take i (timers w) @ drop (Suc i) (timers w)"
    by (auto simp: step_def run_callback_def connectSSE_def split: if_splits callback.splits)
  from s show "eventSources w'
             = (if snd (timers w ! i) = ConnectSSE then eventSources w + 1 else eventSources w)"
    by (auto simp: step_def run_callback_def connectSSE_def split: if_splits callback.splits)
next
  fix ev w' assume "step ev w = Some w'"
  then show "clock w \<le> clock w'" by (rule step_clock)
qed

theorem reconnect_policy_witness:
  "(0::nat) < eventSources (connectSSE initial)
   \<and> (\<exists>w'. step (EsError 0) (connectSSE initial) = Some w' \<and> \<not> sseConnected w'
         \<and> timers w' = [(5000, ConnectSSE)] \<and> eventSources w' = 1)"
proof -
  have a: "(0::nat) < eventSources (connectSSE initial)"
    by (simp add: connectSSE_def initial_def)
  from reconnect_policy [of 0 "connectSSE initial"] a show ?thesis
    by (simp add: connectSSE_def initial_def)
qed

text \<open>
  The claim as stated fails: an event source that reports an error, and 3000 ms later
  another one, leaves two reconnect timers pending at once.
\<close>

theorem reconnect_timers_counterexample:
  "map_option timers (run [EsError 0, TimePasses 3000, EsError 0] (connectSSE initial))
     = Some [(5000, ConnectSSE), (8000, ConnectSSE)]"
  by (simp add: step_def es_onerror_def setTimeout_def connectSSE_def initial_def)

section \<open>Properties of chart rendering\<close>









lemma renderChart_cases:
  "renderChart f u canvas rows win =
     (if \<not> canvas then Normal win
      else let win2 = snd (fold group_row rows ([], destroy_previous win))
           in case Object_entries win2 of
                Some n \<Rightarrow> Throw (TypeError ''Object.entries is not a function'') win2
              | None \<Rightarrow>
                  Normal (new_Chart
                    \<lparr>chart_type = ''line'', labels = map f (allHours rows),
                     datasets = map (make_dataset u win2 (allHours rows))
                                  (entries (fst (fold group_row rows ([], destroy_previous win)))),
                     options = chart_options\<rparr> win2))"
  unfolding renderChart_def destroy_previous_def Let_def split_beta by (rule refl)




lemma renderChart_with_canvas:
  fixes rows win f u
  defines "win2 \<equiv> snd (fold group_row rows ([], destroy_previous win))"
  defines "cfg \<equiv> \<lparr>chart_type = ''line'', labels = map f (allHours rows),
                     datasets = map (make_dataset u win2 (allHours rows))
                                  (entries (fst (fold group_row rows ([], destroy_previous win)))),
                     options = chart_options\<rparr>"
  shows "renderChart f u True rows win =
           (case Object_entries win2 of
              Some n \<Rightarrow> Throw (TypeError ''Object.entries is not a function'') win2
            | None \<Rightarrow> Normal (new_Chart cfg win2))"
  unfolding win2_def cfg_def by (simp add: renderChart_cases Let_def)







lemma get_clean:
  "Object_prototype win = [] \<Longrightarrow> ordinary k \<Longrightarrow>
     get win own k = (case map_of own k of Some v \<Rightarrow> Own v | None \<Rightarrow> Absent)"
  by (simp add: get_def ordinary_def split: option.splits)

lemma update_absent: "map_of al k = None \<Longrightarrow> AList.update k v al = al @ [(k, v)]"
  by (induction al) (auto split: if_splits)

lemma ordinary_not_proto: "ordinary k \<Longrightarrow> k \<noteq> ''__proto__''"
  by (auto simp: ordinary_def object_prototype_members_def)

lemma group_row_clean:
  assumes "Object_prototype win = []" and "ordinary (source r)" and "ordinary (hour r)"
  shows "group_row r (srcs, win) =
           (AList.update (source r)
              (AList.update (hour r) (count r)
                 (case map_of srcs (source r) of Some hm \<Rightarrow> hm | None \<Rightarrow> [])) srcs, win)"
proof (cases "map_of srcs (source r)")
  case None
  then show ?thesis
    using assms
    by (simp add: group_row_def get_clean assign_def ordinary_not_proto update_absent)
next
  case (Some hm)
  then show ?thesis
    using assms by (simp add: group_row_def get_clean assign_def ordinary_not_proto)
qed

lemma latest_snoc:
  "latest (rows @ [r]) s h =
     (if source r = s \<and> hour r = h then Some (count r) else latest rows s h)"
  by (simp add: latest_def Let_def)

lemma latest_absent: "s \<notin> source ` set rows \<Longrightarrow> latest rows s h = None"
proof -
  assume "s \<notin> source ` set rows"
  then have "filter (\<lambda>r. source r = s \<and> hour r = h) rows = []"
    by (auto simp: filter_empty_conv)
  then show ?thesis
    by (simp add: latest_def)
qed

lemma grouped_step:
  assumes g: "grouped rows srcs"
  shows "grouped (rows @ [r])
           (AList.update (source r)
              (AList.update (hour r) (count r)
                 (case map_of srcs (source r) of Some hm \<Rightarrow> hm | None \<Rightarrow> [])) srcs)"
proof -
  let ?hm0 = "case map_of srcs (source r) of Some hm \<Rightarrow> hm | None \<Rightarrow> []"
  have hm0: "map_of ?hm0 = latest rows (source r)"
  proof (cases "map_of srcs (source r)")
    case None
    from g have "map_option map_of (map_of srcs (source r))
        = (if source r \<in> source ` set rows then Some (latest rows (source r)) else None)"
      by (simp add: grouped_def)
    with None have "source r \<notin> source ` set rows"
      by (simp split: if_splits)
    then have "latest rows (source r) = (\<lambda>h. None)"
      by (auto simp: latest_absent)
    with None show ?thesis by simp
  next
    case (Some hm)
    from g have "map_option map_of (map_of srcs (source r))
        = (if source r \<in> source ` set rows then Some (latest rows (source r)) else None)"
      by (simp add: grouped_def)
    with Some show ?thesis
      by (simp split: if_splits)
  qed
  have new: "map_of (AList.update (hour r) (count r) ?hm0) = latest (rows @ [r]) (source r)"
    by (auto simp: update_conv' hm0 latest_snoc fun_eq_iff)
  show ?thesis
    unfolding grouped_def
  proof (intro conjI allI)
    show "distinct (map fst (AList.update (source r) (AList.update (hour r) (count r) ?hm0) srcs))"
      using g by (simp add: grouped_def distinct_update)
  next
    fix s
    show "map_option map_of
            (map_of (AList.update (source r) (AList.update (hour r) (count r) ?hm0) srcs) s)
          = (if s \<in> source ` set (rows @ [r]) then Some (latest (rows @ [r]) s) else None)"
    proof (cases "s = source r")
      case True
      then show ?thesis
        using new by (simp add: update_conv')
    next
      case False
      have "latest (rows @ [r]) s = latest rows s"
        using False by (auto simp: latest_snoc fun_eq_iff)
      with False g show ?thesis
        by (auto simp: update_conv' grouped_def)
    qed
  qed
qed

lemma fold_group_row_clean:
  assumes "Object_prototype win = []"
    and "\<forall>r\<in>set rows. ordinary (source r) \<and> ordinary (hour r)"
  shows "\<exists>srcs. fold group_row rows ([], win) = (srcs, win) \<and> grouped rows srcs"
  using assms(2)
proof (induction rows rule: rev_induct)
  case Nil
  show ?case by (simp add: grouped_def)
next
  case (snoc r rows)
  then obtain srcs where f: "fold group_row rows ([], win) = (srcs, win)"
    and g: "grouped rows srcs"
    by auto
  from snoc.prems have o: "ordinary (source r)" "ordinary (hour r)"
    by simp_all
  show ?case
    using grouped_step [OF g, of r]
    by (simp add: f group_row_clean [OF assms(1) o])
qed

lemma set_Set_of: "set (Set_of xs) = set xs"
  by (induction xs) auto

lemma distinct_Set_of: "distinct (Set_of xs)"
  by (induction xs) (auto simp: set_Set_of)

lemma allHours_sorted: "sorted_wrt (<) (allHours rows)"
  by (simp add: allHours_def strict_sorted_iff distinct_Set_of)

lemma set_allHours: "set (allHours rows) = hour ` set rows"
  by (simp add: allHours_def set_Set_of)

lemma set_entries: "set (entries al) = set al"
  by (auto simp: entries_def)

lemma distinct_entries:
  assumes "distinct (map fst al)"
  shows "distinct (map fst (entries al))"
proof -
  from assms have d: "distinct al" and i: "inj_on fst (set al)"
    by (simp_all add: distinct_map)
  have "distinct (entries al)"
    using d by (auto simp: entries_def)
  moreover have "inj_on fst (set (entries al))"
    using i by (simp add: set_entries)
  ultimately show ?thesis
    by (simp add: distinct_map)
qed

lemma cell_clean:
  assumes "Object_prototype win = []" and "ordinary h" and "map_of hm = latest rows s"
  shows "count_or_zero (get win hm h) = Number (count_at rows s h)"
  using assms
  by (simp add: get_clean count_or_zero_def count_at_def split: option.splits)

lemma destroy_previous_clean:
  "Object_prototype (destroy_previous win) = Object_prototype win"
  "Object_entries (destroy_previous win) = Object_entries win"
  by (simp_all add: destroy_previous_def destroy_def split: option.splits)

lemma example_chart:
  "map_option (\<lambda>c. (labels c, map (\<lambda>d. (label d, data d)) (datasets c)))
     (rendered (renderChart (\<lambda>h. h) (\<lambda>s. s) True example_rows initial_window))
   = Some ([''10:00'', ''11:00''],
           [(''reddit'', [Number 5, Number 3]), (''news'', [Number 0, Number 2])])"
  by code_simp

text \<open>
  Where a source tag names a member that plain objects inherit, the lookup
  \<open>sources[row.source]\<close> finds that member, the group is not made and the tag gets no
  series. The statement of claim C3 below leaves such keys out.
\<close>

lemma inherited_tag_no_series:
  "map_option datasets
     (rendered (renderChart (\<lambda>h. h) (\<lambda>s. s) True [row ''constructor'' ''10:00'' 5] initial_window))
   = Some []"
  by code_simp

lemma length_allHours: "length (allHours rows) = card (hour ` set rows)"
proof -
  have "distinct (allHours rows)"
    using allHours_sorted [of rows] by (simp add: strict_sorted_iff)
  then have "length (allHours rows) = card (set (allHours rows))"
    by (simp add: distinct_card)
  then show ?thesis
    by (simp add: set_allHours)
qed

text \<open>
  The claim as stated fails on the label axis: the labels are times of day, not the hour
  buckets. For the rows of one source at 23:00, at 00:00 of the next day and at 23:00 of
  that day, in a UTC browser with a 24-hour locale, the label axis is 23:00, 00:00,
  23:00: it is neither ascending nor free of repetitions, while the hours behind it are
  three and ascending.
\<close>

theorem chart_series_counterexample:
  "map_option labels (rendered (renderChart hh_mm (\<lambda>s. s) True midnight_rows initial_window))
     = Some [''23:00'', ''00:00'', ''23:00'']
   \<and> \<not> sorted_wrt (<) [''23:00'', ''00:00'', ''23:00'']
   \<and> \<not> distinct [''23:00'', ''00:00'', ''23:00'']
   \<and> allHours midnight_rows
       = [''2024-01-01T23:00:00'', ''2024-01-02T00:00:00'', ''2024-01-02T23:00:00'']"
proof (intro conjI)
  show "map_option labels (rendered (renderChart hh_mm (\<lambda>s. s) True midnight_rows initial_window))
     = Some [''23:00'', ''00:00'', ''23:00'']"
    by code_simp
  show "\<not> sorted_wrt (<) [''23:00'', ''00:00'', ''23:00'']"
    by code_simp
  show "\<not> distinct [''23:00'', ''00:00'', ''23:00'']"
    by simp
  show "allHours midnight_rows
       = [''2024-01-01T23:00:00'', ''2024-01-02T00:00:00'', ''2024-01-02T23:00:00'']"
    by code_simp
qed

lemma keys_grouped:
  assumes "grouped rows srcs"
  shows "fst ` set srcs = source ` set rows"
proof -
  have "s \<in> fst ` set srcs \<longleftrightarrow> s \<in> source ` set rows" for s
  proof -
    from assms have "map_option map_of (map_of srcs s)
        = (if s \<in> source ` set rows then Some (latest rows s) else None)"
      by (simp add: grouped_def)
    then have "map_of srcs s \<noteq> None \<longleftrightarrow> s \<in> source ` set rows"
      by (cases "map_of srcs s") (simp_all split: if_splits)
    then show ?thesis
      by (simp add: map_of_eq_None_iff)
  qed
  then show ?thesis by blast
qed

lemma member_grouped:
  assumes "grouped rows srcs" and "(s, hm) \<in> set srcs"
  shows "map_of hm = latest rows s"
proof -
  from assms have "map_of srcs s = Some hm"
    by (simp add: grouped_def)
  moreover from assms(1) have "map_option map_of (map_of srcs s)
        = (if s \<in> source ` set rows then Some (latest rows s) else None)"
    by (simp add: grouped_def)
  ultimately show ?thesis
    by (simp split: if_splits)
qed

text \<open>
  Claim C3, as the code has it. Let no source tag and no hour of the rows be the name of
  a member that plain objects inherit, and let \<open>Object.prototype\<close> and \<open>Object.entries\<close>
  be unmodified (rows with such a key are left out: nothing is said about them). Then
  \<open>renderChart\<close> constructs a chart over an hour axis that is the strictly ascending
  sequence of the distinct hours of the rows. The label axis has exactly one label per
  hour of that axis, in that order, each the time of day of its hour as the locale
  writes it; the labels themselves need not be ascending or distinct. There is exactly
  one series per source tag of the rows, and each series has one entry per position of
  the axis: the count of the latest row of that source and hour, or 0 where there is
  none. In particular the rows (reddit, 10:00, 5), (reddit, 11:00, 3), (news, 11:00, 2)
  give the axis 10:00, 11:00, the reddit series 5, 3 and the news series 0, 2.
\<close>

theorem chart_series:
  assumes "Object_prototype win = []" and "Object_entries win = None"
    and "\<forall>r\<in>set rows. ordinary (source r) \<and> ordinary (hour r)"
  shows "(\<exists>cfg keys.
      renderChart f u True rows win = Normal (new_Chart cfg (destroy_previous win))
      \<and> labels cfg = map f (allHours rows)
      \<and> length (labels cfg) = card (hour ` set rows)
      \<and> sorted_wrt (<) (allHours rows) \<and> set (allHours rows) = hour ` set rows
      \<and> distinct keys \<and> set keys = source ` set rows
      \<and> map label (datasets cfg) = map (\<lambda>s. u (take 1 s) @ drop 1 s) keys
      \<and> map data (datasets cfg)
          = map (\<lambda>s. map (\<lambda>h. Number (count_at rows s h)) (allHours rows)) keys)
    \<and> map_option (\<lambda>c. (labels c, map (\<lambda>d. (label d, data d)) (datasets c)))
         (rendered (renderChart (\<lambda>h. h) (\<lambda>s. s) True example_rows initial_window))
       = Some ([''10:00'', ''11:00''],
               [(''reddit'', [Number 5, Number 3]), (''news'', [Number 0, Number 2])])"
proof (rule conjI)
  define d where "d = destroy_previous win"
  have cd: "Object_prototype d = []" and ed: "Object_entries d = None"
    using assms(1,2) by (simp_all add: d_def destroy_previous_clean)
  from fold_group_row_clean [OF cd assms(3)]
  obtain srcs where f: "fold group_row rows ([], d) = (srcs, d)" and g: "grouped rows srcs"
    by blast
  define cfg where "cfg = \<lparr>chart_type = ''line'', labels = map f (allHours rows),
      datasets = map (make_dataset u d (allHours rows)) (entries srcs),
      options = chart_options\<rparr>"
  define keys where "keys = map fst (entries srcs)"
  have r: "renderChart f u True rows win = Normal (new_Chart cfg (destroy_previous win))"
    using f ed by (simp add: renderChart_with_canvas cfg_def flip: d_def)
  have dk: "distinct keys"
    using g by (simp add: keys_def distinct_entries grouped_def)
  have sk: "set keys = source ` set rows"
    using keys_grouped [OF g] by (simp add: keys_def set_entries)
  have lab: "map label (datasets cfg) = map (\<lambda>s. u (take 1 s) @ drop 1 s) keys"
    by (simp add: cfg_def keys_def make_dataset_def split_beta)
  have cell: "data (make_dataset u d (allHours rows) e)
      = map (\<lambda>h. Number (count_at rows (fst e) h)) (allHours rows)"
    if "e \<in> set (entries srcs)" for e
  proof -
    obtain s hm where e: "e = (s, hm)" by (cases e)
    with that have "(s, hm) \<in> set srcs"
      by (simp add: set_entries)
    then have m: "map_of hm = latest rows s"
      by (rule member_grouped [OF g])
    have "count_or_zero (get d hm h) = Number (count_at rows s h)"
      if "h \<in> set (allHours rows)" for h
    proof -
      from that assms(3) have "ordinary h"
        by (auto simp: set_allHours)
      then show ?thesis
        by (rule cell_clean [OF cd _ m])
    qed
    then show ?thesis
      by (simp add: e make_dataset_def)
  qed
  have dat: "map data (datasets cfg)
          = map (\<lambda>s. map (\<lambda>h. Number (count_at rows s h)) (allHours rows)) keys"
    using cell by (simp add: cfg_def keys_def)
  have lb: "labels cfg = map f (allHours rows)"
    by (simp add: cfg_def)
  have ln: "length (labels cfg) = card (hour ` set rows)"
    by (simp add: cfg_def length_allHours)
  show "\<exists>cfg keys.
      renderChart f u True rows win = Normal (new_Chart cfg (destroy_previous win))
      \<and> labels cfg = map f (allHours rows)
      \<and> length (labels cfg) = card (hour ` set rows)
      \<and> sorted_wrt (<) (allHours rows) \<and> set (allHours rows) = hour ` set rows
      \<and> distinct keys \<and> set keys = source ` set rows
      \<and> map label (datasets cfg) = map (\<lambda>s. u (take 1 s) @ drop 1 s) keys
      \<and> map data (datasets cfg)
          = map (\<lambda>s. map (\<lambda>h. Number (count_at rows s h)) (allHours rows)) keys"
    by (intro exI [of _ cfg] exI [of _ keys] conjI)
      (rule r, rule lb, rule ln, rule allHours_sorted, rule set_allHours, rule dk, rule sk, rule lab, rule dat)
next
  show "map_option (\<lambda>c. (labels c, map (\<lambda>d. (label d, data d)) (datasets c)))
         (rendered (renderChart (\<lambda>h. h) (\<lambda>s. s) True example_rows initial_window))
       = Some ([''10:00'', ''11:00''],
               [(''reddit'', [Number 5, Number 3]), (''news'', [Number 0, Number 2])])"
    by (rule example_chart)
qed

theorem chart_series_witness:
  "(\<exists>cfg keys.
      renderChart (\<lambda>h. h) (\<lambda>s. s) True example_rows initial_window
        = Normal (new_Chart cfg (destroy_previous initial_window))
      \<and> labels cfg = map (\<lambda>h. h) (allHours example_rows)
      \<and> length (labels cfg) = card (hour ` set example_rows)
      \<and> sorted_wrt (<) (allHours example_rows)
      \<and> set (allHours example_rows) = hour ` set example_rows
      \<and> distinct keys \<and> set keys = source ` set example_rows
      \<and> map label (datasets cfg) = map (\<lambda>s. take 1 s @ drop 1 s) keys
      \<and> map data (datasets cfg)
          = map (\<lambda>s. map (\<lambda>h. Number (count_at example_rows s h)) (allHours example_rows)) keys)
   \<and> (\<exists>cfg keys.
      renderChart hh_mm (\<lambda>s. s) True midnight_rows initial_window
        = Normal (new_Chart cfg (destroy_previous initial_window))
      \<and> labels cfg = map hh_mm (allHours midnight_rows)
      \<and> length (labels cfg) = card (hour ` set midnight_rows)
      \<and> sorted_wrt (<) (allHours midnight_rows)
      \<and> set (allHours midnight_rows) = hour ` set midnight_rows
      \<and> distinct keys \<and> set keys = source ` set midnight_rows
      \<and> map label (datasets cfg) = map (\<lambda>s. take 1 s @ drop 1 s) keys
      \<and> map data (datasets cfg)
          = map (\<lambda>s. map (\<lambda>h. Number (count_at midnight_rows s h)) (allHours midnight_rows)) keys)"
proof -
  have a: "Object_prototype initial_window = []" and b: "Object_entries initial_window = None"
    by (simp_all add: initial_window_def)
  have c: "\<forall>r\<in>set example_rows. ordinary (source r) \<and> ordinary (hour r)"
    by (simp add: example_rows_def row_def ordinary_def object_prototype_members_def)
  have d: "\<forall>r\<in>set midnight_rows. ordinary (source r) \<and> ordinary (hour r)"
    by (simp add: midnight_rows_def row_def ordinary_def object_prototype_members_def)
  from chart_series [OF a b c, of "\<lambda>h. h" "\<lambda>s. s"] chart_series [OF a b d, of hh_mm "\<lambda>s. s"]
  show ?thesis
    by (intro conjI) (erule conjunct1)+
qed

end
